theory Spec2Isabelle
  imports Main "HOL-Library.Product_Lexorder"
begin

section \<open>The storage layer (db/models.py)\<close>

text \<open>
  A \<open>DateTime\<close> column holds a naive UTC timestamp. It is modelled as the number of
  microseconds since a fixed midnight, an \<open>int\<close>; \<open>.date()\<close> is the number of
  whole days since that midnight, and \<open>timedelta.days\<close> is the floor of a difference
  in days (Python normalises a timedelta so that its \<open>days\<close> field is the floor).
\<close>

type_synonym datetime = int

definition usec_per_day :: int where
  "usec_per_day = 86400000000"

definition date_of :: "datetime \<Rightarrow> int" where
  "date_of t = t div usec_per_day"

definition timedelta_days :: "int \<Rightarrow> int" where
  "timedelta_days d = d div usec_per_day"

text \<open>
  The four tables. Integer columns are Python ints. The columns \<open>total_sessions\<close>,
  \<open>current_streak\<close>, \<open>longest_streak\<close>, \<open>connection_depth\<close>,
  \<open>relevance_score\<close> and the boolean flags carry a column default that the ORM
  fills in at INSERT (also when the constructor is handed \<open>None\<close>), and no statement
  of the repository writes \<open>None\<close> to them, so they are plain values; the two
  interaction dates have no default and are optional.
\<close>

record user =
  u_id :: int
  u_user_id :: string
  u_created_at :: datetime
  first_interaction_date :: "datetime option"
  last_interaction_date :: "datetime option"
  total_sessions :: int
  current_streak :: int
  longest_streak :: int
  connection_depth :: int

record memory =
  m_id :: int
  m_user_id :: int
  observation :: string
  m_interpretation :: "string option"
  category :: "string option"
  m_created_at :: datetime
  relevance_score :: int
  follow_up_question :: "string option"
  people_mentioned :: "string option"
  is_identity_statement :: bool
  is_breakthrough_moment :: bool

record session =
  s_id :: int
  s_user_id :: int
  user_input :: string
  agent_response :: string
  s_created_at :: datetime

record achievement =
  a_id :: int
  a_user_id :: int
  achievement_key :: string
  unlocked_at :: datetime
  celebrated :: bool

text \<open>
  The database: each table is the list of its rows in insertion order.
\<close>

record db =
  users :: "user list"
  memories :: "memory list"
  sessions :: "session list"
  achievements :: "achievement list"

definition empty_db :: db where
  "empty_db = \<lparr>users = [], memories = [], sessions = [], achievements = []\<rparr>"

text \<open>
  The integer primary key of a new row: one more than the largest key of the table
  (the rowid rule of SQLite, the engine of the default \<open>DATABASE_URL\<close>).
\<close>

definition new_id :: "int list \<Rightarrow> int" where
  "new_id ids = foldr max ids 0 + 1"

text \<open>
  \<open>query(...).filter(P).first()\<close> is \<^const>\<open>find\<close>; the UPDATE that
  \<open>commit()\<close> issues for the object that \<open>first()\<close> loaded rewrites that row.
\<close>

fun update_row :: "('a \<Rightarrow> bool) \<Rightarrow> ('a \<Rightarrow> 'a) \<Rightarrow> 'a list \<Rightarrow> 'a list" where
  "update_row P f [] = []"
| "update_row P f (x # xs) = (if P x then f x # xs else x # update_row P f xs)"

text \<open>
  \<open>.limit(n)\<close> renders \<open>LIMIT n\<close> with the integer unchanged. SQLite reads a
  negative \<open>LIMIT\<close> as no bound on the number of rows.
\<close>

definition sql_limit :: "int \<Rightarrow> 'a list \<Rightarrow> 'a list" where
  "sql_limit n xs = (if n < 0 then xs else take (nat n) xs)"

section \<open>The memory repository (memory/repository.py)\<close>

subsection \<open>User operations\<close>

definition get_or_create_user :: "db \<Rightarrow> string \<Rightarrow> datetime \<Rightarrow> user \<times> db" where
  "get_or_create_user d uid now =
     (case find (\<lambda>u. u_user_id u = uid) (users d) of
        Some user \<Rightarrow> (user, d)
      | None \<Rightarrow>
          (let user = \<lparr>u_id = new_id (map u_id (users d)), u_user_id = uid,
                        u_created_at = now,
                        first_interaction_date = None, last_interaction_date = None,
                        total_sessions = 0, current_streak = 0, longest_streak = 0,
                        connection_depth = 1\<rparr>
           in (user, d\<lparr>users := users d @ [user]\<rparr>)))"

subsection \<open>Relationship tracking\<close>

text \<open>
  \<open>_calculate_connection_depth\<close>; \<open>now\<close> is the reading of
  \<open>datetime.utcnow()\<close> that the function takes itself.
\<close>

definition calculate_connection_depth :: "user \<Rightarrow> datetime \<Rightarrow> int" where
  "calculate_connection_depth user now =
     (let score = 1;
          score = (if total_sessions user \<ge> 3 then 2 else score);
          score = (if total_sessions user \<ge> 10 then 3 else score);
          score = (if total_sessions user \<ge> 25 then 4 else score);
          score = (if total_sessions user \<ge> 50 then 5 else score);
          score = (if current_streak user \<ge> 3 then min 5 (score + 1) else score);
          score = (case first_interaction_date user of
                     Some first \<Rightarrow>
                       (let days_together = timedelta_days (now - first)
                        in if days_together \<ge> 30 then min 5 (score + 1) else score)
                   | None \<Rightarrow> score)
      in min 5 (max 1 score))"

text \<open>
  \<open>update_user_stats\<close>. The function reads the clock once itself (\<open>now\<close>) and
  once more inside \<open>_calculate_connection_depth\<close> (\<open>now2\<close>). Its commented
  blocks are the steps below, applied to the loaded object in the order of the source.
  The result is the returned object (\<open>None\<close> of the source is \<open>None\<close>) and the
  database after the commit.
\<close>

definition set_first_interaction :: "user \<Rightarrow> datetime \<Rightarrow> user" where
  "set_first_interaction user now =
     (if first_interaction_date user = None
      then user\<lparr>first_interaction_date := Some now\<rparr> else user)"

definition calculate_streak :: "user \<Rightarrow> int \<Rightarrow> user" where
  "calculate_streak user today =
     (case last_interaction_date user of
        Some last_seen \<Rightarrow>
          (let last_date = date_of last_seen;
               days_diff = today - last_date
           in if days_diff = 0 then user
              else if days_diff = 1
              then user\<lparr>current_streak := current_streak user + 1\<rparr>
              else user\<lparr>current_streak := 1\<rparr>)
      | None \<Rightarrow> user\<lparr>current_streak := 1\<rparr>)"

definition update_longest_streak :: "user \<Rightarrow> user" where
  "update_longest_streak user =
     (if current_streak user > longest_streak user
      then user\<lparr>longest_streak := current_streak user\<rparr> else user)"

definition update_user_stats :: "db \<Rightarrow> int \<Rightarrow> datetime \<Rightarrow> datetime \<Rightarrow> user option \<times> db" where
  "update_user_stats d user_id now now2 =
     (case find (\<lambda>u. u_id u = user_id) (users d) of
        None \<Rightarrow> (None, d)
      | Some user \<Rightarrow>
          (let today = date_of now;
               user = set_first_interaction user now;
               user = calculate_streak user today;
               user = update_longest_streak user;
               user = user\<lparr>last_interaction_date := Some now\<rparr>;
               user = user\<lparr>total_sessions := total_sessions user + 1\<rparr>;
               user = user\<lparr>connection_depth := calculate_connection_depth user now2\<rparr>
           in (Some user, d\<lparr>users := update_row (\<lambda>u. u_id u = user_id) (\<lambda>_. user) (users d)\<rparr>)))"

subsection \<open>Memory operations\<close>

text \<open>
  \<open>now\<close> is the reading of \<open>datetime.utcnow\<close> that the column default of
  \<open>created_at\<close> takes at the INSERT.
\<close>

definition create_memory ::
  "db \<Rightarrow> int \<Rightarrow> string \<Rightarrow> string option \<Rightarrow> string option \<Rightarrow> int \<Rightarrow> string option
     \<Rightarrow> string option \<Rightarrow> bool \<Rightarrow> bool \<Rightarrow> datetime \<Rightarrow> memory \<times> db" where
  "create_memory d user_id obs interp cat score follow_up people is_identity is_breakthrough now =
     (let memory = \<lparr>m_id = new_id (map m_id (memories d)), m_user_id = user_id,
                     observation = obs, m_interpretation = interp, category = cat,
                     m_created_at = now, relevance_score = score,
                     follow_up_question = follow_up, people_mentioned = people,
                     is_identity_statement = is_identity,
                     is_breakthrough_moment = is_breakthrough\<rparr>
      in (memory, d\<lparr>memories := memories d @ [memory]\<rparr>))"

text \<open>
  \<open>order_by(desc(created_at))\<close> and \<open>order_by(desc(relevance_score), desc(created_at))\<close>
  sort on the negated keys; rows that agree on every key keep their table order (the
  engine may return them in any order).
\<close>

definition get_recent_memories :: "db \<Rightarrow> int \<Rightarrow> int \<Rightarrow> string option \<Rightarrow> memory list" where
  "get_recent_memories d user_id limit cat =
     (let query = filter (\<lambda>m. m_user_id m = user_id) (memories d);
          query = (if cat \<noteq> None \<and> cat \<noteq> Some []
                   then filter (\<lambda>m. category m = cat) query else query)
      in sql_limit limit (sort_key (\<lambda>m. - m_created_at m) query))"

definition get_relevant_memories :: "db \<Rightarrow> int \<Rightarrow> int \<Rightarrow> int \<Rightarrow> memory list" where
  "get_relevant_memories d user_id min_relevance limit =
     sql_limit limit
       (sort_key (\<lambda>m. (- relevance_score m, - m_created_at m))
          (filter (\<lambda>m. relevance_score m \<ge> min_relevance)
             (filter (\<lambda>m. m_user_id m = user_id) (memories d))))"

definition update_memory_relevance :: "db \<Rightarrow> int \<Rightarrow> int \<Rightarrow> memory option \<times> db" where
  "update_memory_relevance d memory_id new_score =
     (case find (\<lambda>m. m_id m = memory_id) (memories d) of
        None \<Rightarrow> (None, d)
      | Some memory \<Rightarrow>
          (let memory = memory\<lparr>relevance_score := new_score\<rparr>
           in (Some memory,
               d\<lparr>memories := update_row (\<lambda>m. m_id m = memory_id) (\<lambda>_. memory) (memories d)\<rparr>)))"

subsection \<open>Session operations\<close>

definition create_session_record :: "db \<Rightarrow> int \<Rightarrow> string \<Rightarrow> string \<Rightarrow> datetime \<Rightarrow> session \<times> db" where
  "create_session_record d user_id inp resp now =
     (let session = \<lparr>s_id = new_id (map s_id (sessions d)), s_user_id = user_id,
                      user_input = inp, agent_response = resp, s_created_at = now\<rparr>
      in (session, d\<lparr>sessions := sessions d @ [session]\<rparr>))"

subsection \<open>Achievement operations\<close>

definition has_achievement :: "db \<Rightarrow> int \<Rightarrow> string \<Rightarrow> bool" where
  "has_achievement d user_id key =
     (find (\<lambda>a. a_user_id a = user_id \<and> achievement_key a = key) (achievements d) \<noteq> None)"

definition unlock_achievement :: "db \<Rightarrow> int \<Rightarrow> string \<Rightarrow> datetime \<Rightarrow> achievement option \<times> db" where
  "unlock_achievement d user_id key now =
     (if has_achievement d user_id key then (None, d)
      else (let achievement = \<lparr>a_id = new_id (map a_id (achievements d)), a_user_id = user_id,
                                achievement_key = key, unlocked_at = now, celebrated = False\<rparr>
            in (Some achievement, d\<lparr>achievements := achievements d @ [achievement]\<rparr>)))"

definition mark_achievement_celebrated :: "db \<Rightarrow> int \<Rightarrow> achievement option \<times> db" where
  "mark_achievement_celebrated d achievement_id =
     (case find (\<lambda>a. a_id a = achievement_id) (achievements d) of
        None \<Rightarrow> (None, d)
      | Some achievement \<Rightarrow>
          (let achievement = achievement\<lparr>celebrated := True\<rparr>
           in (Some achievement,
               d\<lparr>achievements :=
                    update_row (\<lambda>a. a_id a = achievement_id) (\<lambda>_. achievement) (achievements d)\<rparr>)))"

text \<open>
  The people count of \<open>check_and_unlock_achievements\<close>. \<open>json.loads\<close>,
  \<open>json.dumps\<close> and \<open>str.strip\<close> belong to Python and are parameters of the
  model (\<open>json_loads s = None\<close> when the call raises), so that nothing is assumed about
  the texts they accept or the white space they remove; a parsed value is a \<open>json\<close>.
  A text is the list of its UTF-8 bytes: it is empty, or equal to another text, exactly
  when the Python string is, and \<open>split(',')\<close> cuts at every comma byte.
\<close>

datatype json = JNull | JBool bool | JNumber | JStr string | JArr "json list"
  | JObj "(string \<times> json) list"

record lib =
  json_loads :: "string \<Rightarrow> json option"
  json_dumps :: "json list \<Rightarrow> string"
  str_strip :: "string \<Rightarrow> string"

fun split :: "char \<Rightarrow> string \<Rightarrow> string list" where
  "split c [] = [[]]"
| "split c (x # xs) =
     (if x = c then [] # split c xs
      else (case split c xs of [] \<Rightarrow> [[x]] | y # ys \<Rightarrow> (x # y) # ys))"

fun people_of_json :: "lib \<Rightarrow> json \<Rightarrow> string list" where
  "people_of_json l (JStr p) = (if p \<noteq> [] then [str_strip l p] else [])"
| "people_of_json l _ = []"

definition people_of_memory :: "lib \<Rightarrow> memory \<Rightarrow> string list" where
  "people_of_memory l mem =
     (case people_mentioned mem of
        None \<Rightarrow> []
      | Some text \<Rightarrow>
          if text = [] then []
          else (case json_loads l text of
                  Some parsed \<Rightarrow>
                    (case parsed of JArr ps \<Rightarrow> concat (map (people_of_json l) ps) | _ \<Rightarrow> [])
                | None \<Rightarrow> filter (\<lambda>p. p \<noteq> []) (map (str_strip l) (split CHR '','' text))))"

text \<open>\<open>x or y\<close> on integers.\<close>

definition py_or :: "int \<Rightarrow> int \<Rightarrow> int" where
  "py_or x y = (if x = 0 then y else x)"

text \<open>
  The table \<open>achievement_checks\<close>: every key with the value of its condition in the
  database that the pass starts from.
\<close>

definition achievement_checks :: "lib \<Rightarrow> db \<Rightarrow> user \<Rightarrow> int \<Rightarrow> (string \<times> bool) list" where
  "achievement_checks l d user user_id =
     (let total_sessions = py_or (total_sessions user) 0;
          current_streak = py_or (current_streak user) 0;
          connection_depth = py_or (connection_depth user) 1;
          breakthrough_count =
            length (filter (\<lambda>m. is_breakthrough_moment m)
                      (filter (\<lambda>m. m_user_id m = user_id) (memories d)));
          identity_count =
            length (filter (\<lambda>m. is_identity_statement m)
                      (filter (\<lambda>m. m_user_id m = user_id) (memories d)));
          memories = get_recent_memories d user_id 1000 None;
          people = remdups (concat (map (people_of_memory l) memories));
          people_count = length people
      in [(''first_step'', total_sessions \<ge> 1),
          (''opening_up'', length memories \<ge> 5),
          (''three_day'', current_streak \<ge> 3),
          (''week_warrior'', current_streak \<ge> 7),
          (''month_master'', current_streak \<ge> 30),
          (''trust_builder'', connection_depth \<ge> 2),
          (''growing_closer'', connection_depth \<ge> 3),
          (''deep_bond'', connection_depth \<ge> 4),
          (''truly_known'', connection_depth \<ge> 5),
          (''first_insight'', breakthrough_count \<ge> 1),
          (''insight_seeker'', breakthrough_count \<ge> 5),
          (''self_explorer'', identity_count \<ge> 10),
          (''relationship_mapper'', people_count \<ge> 5)])"

text \<open>
  The loop over the table. The inserts of one pass are given one clock reading;
  \<open>unlocked_at\<close> enters no condition.
\<close>

fun unlock_loop ::
  "(string \<times> bool) list \<Rightarrow> db \<Rightarrow> int \<Rightarrow> datetime \<Rightarrow> achievement list \<Rightarrow> achievement list \<times> db" where
  "unlock_loop [] d user_id now newly_unlocked = (newly_unlocked, d)"
| "unlock_loop ((key, condition) # rest) d user_id now newly_unlocked =
     (if condition
      then (case unlock_achievement d user_id key now of
              (Some achievement, d') \<Rightarrow> unlock_loop rest d' user_id now (newly_unlocked @ [achievement])
            | (None, d') \<Rightarrow> unlock_loop rest d' user_id now newly_unlocked)
      else unlock_loop rest d user_id now newly_unlocked)"

definition check_and_unlock_achievements :: "lib \<Rightarrow> db \<Rightarrow> int \<Rightarrow> datetime \<Rightarrow> achievement list \<times> db" where
  "check_and_unlock_achievements l d user_id now =
     (case find (\<lambda>u. u_id u = user_id) (users d) of
        None \<Rightarrow> ([], d)
      | Some user \<Rightarrow> unlock_loop (achievement_checks l d user user_id) d user_id now [])"

section \<open>The memory service (memory/service.py)\<close>

definition store_observation ::
  "db \<Rightarrow> string \<Rightarrow> string \<Rightarrow> string option \<Rightarrow> string option \<Rightarrow> int \<Rightarrow> datetime \<Rightarrow> memory \<times> db" where
  "store_observation d user_id obs interp cat score now =
     (let (user, d) = get_or_create_user d user_id now
      in create_memory d (u_id user) obs interp cat score None None False False now)"

text \<open>
  One dictionary of \<open>observations\<close>: each field is what \<open>obs.get(key)\<close> returns,
  \<open>None\<close> for an absent key or a null. A score or flag that is absent takes the
  default of the call (\<open>5\<close>, \<open>False\<close>), a null one the equal default of the column.
  \<open>people_mentioned\<close> is a list (handed to \<open>json.dumps\<close>) or a text.
\<close>

datatype people = PeopleList "json list" | PeopleText string

record obs =
  obs_observation :: "string option"
  obs_interpretation :: "string option"
  obs_category :: "string option"
  obs_relevance_score :: "int option"
  obs_follow_up_question :: "string option"
  obs_people_mentioned :: "people option"
  obs_is_identity_statement :: "bool option"
  obs_is_breakthrough_moment :: "bool option"

fun store_loop :: "lib \<Rightarrow> obs list \<Rightarrow> db \<Rightarrow> int \<Rightarrow> datetime \<Rightarrow> memory list \<Rightarrow> memory list \<times> db" where
  "store_loop l [] d uid now acc = (acc, d)"
| "store_loop l (ob # rest) d uid now acc =
     (let people_json = (case obs_people_mentioned ob of
                           Some (PeopleList ps) \<Rightarrow> Some (json_dumps l ps)
                         | Some (PeopleText t) \<Rightarrow> Some t
                         | None \<Rightarrow> None)
      in (case obs_observation ob of
            None \<Rightarrow> store_loop l rest d uid now acc
          | Some text \<Rightarrow>
              if text = [] then store_loop l rest d uid now acc
              else (let (memory, d') =
                          create_memory d uid text (obs_interpretation ob) (obs_category ob)
                            (case obs_relevance_score ob of Some s \<Rightarrow> s | None \<Rightarrow> 5)
                            (obs_follow_up_question ob) people_json
                            (case obs_is_identity_statement ob of Some b \<Rightarrow> b | None \<Rightarrow> False)
                            (case obs_is_breakthrough_moment ob of Some b \<Rightarrow> b | None \<Rightarrow> False)
                            now
                    in store_loop l rest d' uid now (acc @ [memory]))))"

definition batch_store_observations :: "lib \<Rightarrow> db \<Rightarrow> string \<Rightarrow> obs list \<Rightarrow> datetime \<Rightarrow> memory list \<times> db" where
  "batch_store_observations l d user_id observations now =
     (let (user, d) = get_or_create_user d user_id now
      in store_loop l observations d (u_id user) now [])"

record interaction_context =
  recent :: "memory list"
  relevant :: "memory list"

definition build_context_for_interaction :: "db \<Rightarrow> string \<Rightarrow> int \<Rightarrow> int \<Rightarrow> datetime \<Rightarrow> interaction_context \<times> db" where
  "build_context_for_interaction d user_id include_recent include_relevant now =
     (let (user, d) = get_or_create_user d user_id now;
          recent_memories = get_recent_memories d (u_id user) include_recent None;
          relevant_memories = get_relevant_memories d (u_id user) 7 include_relevant
      in (\<lparr>recent = recent_memories, relevant = relevant_memories\<rparr>, d))"

definition mark_memory_as_significant :: "db \<Rightarrow> int \<Rightarrow> memory option \<times> db" where
  "mark_memory_as_significant d memory_id = update_memory_relevance d memory_id 9"

definition decay_memory_relevance :: "db \<Rightarrow> int \<Rightarrow> int \<Rightarrow> memory option \<times> db" where
  "decay_memory_relevance d memory_id decay_amount = update_memory_relevance d memory_id 3"

definition log_interaction :: "db \<Rightarrow> string \<Rightarrow> string \<Rightarrow> string \<Rightarrow> datetime \<Rightarrow> db" where
  "log_interaction d user_id inp resp now =
     (let (user, d) = get_or_create_user d user_id now
      in snd (create_session_record d (u_id user) inp resp now))"

section \<open>Reachable states\<close>

text \<open>
  The public operations that write to the database, with their arguments. The read-only
  service functions (\<open>get_pattern_history\<close>, \<open>get_recent_interaction_context\<close>) write
  what \<open>get_or_create_user\<close> writes; a turn of the session service and every HTTP
  endpoint is a sequence of these operations.
\<close>

datatype op =
    GetOrCreateUser string
  | CreateMemory int string "string option" "string option" int "string option" "string option"
      bool bool
  | UpdateMemoryRelevance int int
  | CreateSessionRecord int string string
  | UpdateUserStats int
  | UnlockAchievement int string
  | MarkAchievementCelebrated int
  | CheckAndUnlockAchievements int
  | StoreObservation string string "string option" "string option" int
  | BatchStoreObservations string "obs list"
  | BuildContextForInteraction string int int
  | MarkMemoryAsSignificant int
  | DecayMemoryRelevance int int
  | LogInteraction string string string

text \<open>
  One operation, run on a database; \<open>now\<close> and \<open>now2\<close> are the clock readings of
  the call, in order.
\<close>

fun exec_op :: "lib \<Rightarrow> datetime \<Rightarrow> datetime \<Rightarrow> op \<Rightarrow> db \<Rightarrow> db" where
  "exec_op l now now2 (GetOrCreateUser uid) d = snd (get_or_create_user d uid now)"
| "exec_op l now now2 (CreateMemory uid ob interp cat score fu people idn brk) d =
     snd (create_memory d uid ob interp cat score fu people idn brk now)"
| "exec_op l now now2 (UpdateMemoryRelevance mid score) d = snd (update_memory_relevance d mid score)"
| "exec_op l now now2 (CreateSessionRecord uid inp resp) d = snd (create_session_record d uid inp resp now)"
| "exec_op l now now2 (UpdateUserStats uid) d = snd (update_user_stats d uid now now2)"
| "exec_op l now now2 (UnlockAchievement uid key) d = snd (unlock_achievement d uid key now)"
| "exec_op l now now2 (MarkAchievementCelebrated aid) d = snd (mark_achievement_celebrated d aid)"
| "exec_op l now now2 (CheckAndUnlockAchievements uid) d = snd (check_and_unlock_achievements l d uid now)"
| "exec_op l now now2 (StoreObservation uid ob interp cat score) d =
     snd (store_observation d uid ob interp cat score now)"
| "exec_op l now now2 (BatchStoreObservations uid observations) d =
     snd (batch_store_observations l d uid observations now)"
| "exec_op l now now2 (BuildContextForInteraction uid n k) d =
     snd (build_context_for_interaction d uid n k now)"
| "exec_op l now now2 (MarkMemoryAsSignificant mid) d = snd (mark_memory_as_significant d mid)"
| "exec_op l now now2 (DecayMemoryRelevance mid amount) d = snd (decay_memory_relevance d mid amount)"
| "exec_op l now now2 (LogInteraction uid inp resp) d = log_interaction d uid inp resp now"

text \<open>
  The states reachable from the empty database by operations that satisfy \<open>ok\<close>.
\<close>

inductive reachable_by :: "(op \<Rightarrow> bool) \<Rightarrow> lib \<Rightarrow> db \<Rightarrow> bool" for ok :: "op \<Rightarrow> bool" and l :: lib where
  init: "reachable_by ok l empty_db"
| step: "reachable_by ok l d \<Longrightarrow> ok operation \<Longrightarrow> reachable_by ok l (exec_op l now now2 operation d)"

definition reachable :: "lib \<Rightarrow> db \<Rightarrow> bool" where
  "reachable l d = reachable_by (\<lambda>_. True) l d"

section \<open>The specification's formulas and example states\<close>

text \<open>
  The connection depth as the specification words it: a base from the session
  thresholds, one more for a streak of at least three, one more when at least thirty
  days have passed since the first interaction, clamped to the range from 1 to 5.
\<close>

definition spec_connection_depth :: "int \<Rightarrow> int \<Rightarrow> datetime option \<Rightarrow> datetime \<Rightarrow> int" where
  "spec_connection_depth n streak first_seen now =
     (let base = (if n \<ge> 50 then 5 else if n \<ge> 25 then 4 else if n \<ge> 10 then 3
                  else if n \<ge> 3 then 2 else 1);
          streak_bonus = (if streak \<ge> 3 then 1 else 0);
          days_bonus = (case first_seen of
                          Some f \<Rightarrow> if now - f \<ge> 30 * usec_per_day then 1 else 0
                        | None \<Rightarrow> 0)
      in min 5 (max 1 (base + streak_bonus + days_bonus)))"


text \<open>The score that \<open>batch_store_observations\<close> hands on for one dictionary.\<close>

definition obs_score :: "obs \<Rightarrow> int" where
  "obs_score ob = (case obs_relevance_score ob of Some s \<Rightarrow> s | None \<Rightarrow> 5)"

text \<open>
  An operation whose relevance-score arguments all lie in the documented range from 1 to 10.
\<close>

fun scores_in_range :: "op \<Rightarrow> bool" where
  "scores_in_range (CreateMemory uid ob interp cat score fu people idn brk) = (1 \<le> score \<and> score \<le> 10)"
| "scores_in_range (UpdateMemoryRelevance mid score) = (1 \<le> score \<and> score \<le> 10)"
| "scores_in_range (StoreObservation uid ob interp cat score) = (1 \<le> score \<and> score \<le> 10)"
| "scores_in_range (BatchStoreObservations uid observations) =
     (\<forall>ob \<in> set observations. 1 \<le> obs_score ob \<and> obs_score ob \<le> 10)"
| "scores_in_range _ = True"

text \<open>
  A library for the examples, whose states hold no text of people: no text parses, and
  nothing is stripped.
\<close>

definition example_lib :: lib where
  "example_lib = \<lparr>json_loads = (\<lambda>s. None), json_dumps = (\<lambda>ps. ''[]''),
                    str_strip = (\<lambda>s. s)\<rparr>"


definition example_user :: user where
  "example_user = \<lparr>u_id = 1, u_user_id = ''trader'', u_created_at = 0,
                     first_interaction_date = Some 0, last_interaction_date = Some 0,
                     total_sessions = 2, current_streak = 2, longest_streak = 2,
                     connection_depth = 1\<rparr>"

definition example_db :: db where
  "example_db = \<lparr>users = [example_user], memories = [], sessions = [], achievements = []\<rparr>"

definition example_memory :: memory where
  "example_memory = \<lparr>m_id = 1, m_user_id = 1, observation = ''waits too long'',
      m_interpretation = None, category = None, m_created_at = 10, relevance_score = 8,
      follow_up_question = None, people_mentioned = None,
      is_identity_statement = False, is_breakthrough_moment = False\<rparr>"

definition example_memory_db :: db where
  "example_memory_db = example_db\<lparr>memories :=
      [example_memory, example_memory\<lparr>m_id := 2, m_created_at := 20\<rparr>,
       example_memory\<lparr>m_id := 3, m_created_at := 30, relevance_score := 9\<rparr>]\<rparr>"

section \<open>Streak, depth and the missing user\<close>

lemma le_zdiv_iff:
  fixes d :: int
  assumes "0 < b"
  shows "(k \<le> d div b) = (k * b \<le> d)"
proof
  assume "k \<le> d div b"
  then have "k * b \<le> (d div b) * b" using assms by (simp add: mult_right_mono)
  also have "\<dots> \<le> d"
  proof -
    have "d = d div b * b + d mod b" by simp
    moreover have "0 \<le> d mod b" using assms by simp
    ultimately show ?thesis by linarith
  qed
  finally show "k * b \<le> d" .
next
  assume "k * b \<le> d"
  then have "(k * b) div b \<le> d div b" using assms by (rule zdiv_mono1)
  then show "k \<le> d div b" using assms by simp
qed

lemma thirty_days_iff: "(30 \<le> timedelta_days d) = (30 * usec_per_day \<le> d)"
  unfolding timedelta_days_def by (rule le_zdiv_iff) (simp add: usec_per_day_def)

lemma calculate_connection_depth_range:
  "1 \<le> calculate_connection_depth u now \<and> calculate_connection_depth u now \<le> 5"
  unfolding calculate_connection_depth_def Let_def by (simp split: option.split)

lemma set_first_interaction_fields [simp]:
  "u_id (set_first_interaction u now) = u_id u"
  "u_user_id (set_first_interaction u now) = u_user_id u"
  "last_interaction_date (set_first_interaction u now) = last_interaction_date u"
  "total_sessions (set_first_interaction u now) = total_sessions u"
  "current_streak (set_first_interaction u now) = current_streak u"
  "longest_streak (set_first_interaction u now) = longest_streak u"
  by (simp_all add: set_first_interaction_def)

lemma calculate_streak_fields [simp]:
  "u_id (calculate_streak u t) = u_id u"
  "u_user_id (calculate_streak u t) = u_user_id u"
  "total_sessions (calculate_streak u t) = total_sessions u"
  "longest_streak (calculate_streak u t) = longest_streak u"
  by (simp_all add: calculate_streak_def Let_def split: option.split)

lemma current_streak_set_first_interaction:
  "current_streak (calculate_streak (set_first_interaction u now) t) =
     current_streak (calculate_streak u t)"
  by (simp add: calculate_streak_def set_first_interaction_def Let_def split: option.split)

lemma update_longest_streak_fields [simp]:
  "u_id (update_longest_streak u) = u_id u"
  "u_user_id (update_longest_streak u) = u_user_id u"
  "total_sessions (update_longest_streak u) = total_sessions u"
  "current_streak (update_longest_streak u) = current_streak u"
  "longest_streak (update_longest_streak u) = max (longest_streak u) (current_streak u)"
  by (simp_all add: update_longest_streak_def)

lemma find_update_row:
  "find P xs = Some x \<Longrightarrow> P y \<Longrightarrow> find P (update_row P (\<lambda>_. y) xs) = Some y"
  by (induction xs) auto

text \<open>
  What a call of \<open>update_user_stats\<close> on an existing user returns and stores.
\<close>

lemma update_user_stats_found:
  assumes "find (\<lambda>u. u_id u = uid) (users d) = Some u"
  shows "\<exists>u'. update_user_stats d uid now now2 =
            (Some u', d\<lparr>users := update_row (\<lambda>u. u_id u = uid) (\<lambda>_. u') (users d)\<rparr>)
     \<and> u_id u' = u_id u
     \<and> current_streak u' = current_streak (calculate_streak u (date_of now))
     \<and> longest_streak u' = max (longest_streak u) (current_streak u')
     \<and> total_sessions u' = total_sessions u + 1
     \<and> 1 \<le> connection_depth u' \<and> connection_depth u' \<le> 5"
  using assms calculate_connection_depth_range unfolding update_user_stats_def Let_def
  by (simp add: current_streak_set_first_interaction)

text \<open>
  C1. One call of \<open>update_user_stats\<close> on an existing user returns and stores the
  user with the streak changed by the calendar-day gap between today and the day of the
  last interaction: unchanged for a gap of 0, one more for a gap of exactly 1, reset to 1
  for a gap above 1, and 1 when there was no interaction before; afterwards the longest
  streak is the maximum of its old value and the new current streak.
\<close>

theorem update_user_stats_streak_rule:
  assumes "find (\<lambda>u. u_id u = uid) (users d) = Some u"
  shows "\<exists>u'. fst (update_user_stats d uid now now2) = Some u'
     \<and> find (\<lambda>u. u_id u = uid) (users (snd (update_user_stats d uid now now2))) = Some u'
     \<and> (case last_interaction_date u of
          None \<Rightarrow> current_streak u' = 1
        | Some l \<Rightarrow>
            (date_of now - date_of l = 0 \<longrightarrow> current_streak u' = current_streak u)
          \<and> (date_of now - date_of l = 1 \<longrightarrow> current_streak u' = current_streak u + 1)
          \<and> (date_of now - date_of l > 1 \<longrightarrow> current_streak u' = 1))
     \<and> longest_streak u' = max (longest_streak u) (current_streak u')"
proof -
  from update_user_stats_found [OF assms, of now now2] obtain u' where
    res: "update_user_stats d uid now now2 =
            (Some u', d\<lparr>users := update_row (\<lambda>u. u_id u = uid) (\<lambda>_. u') (users d)\<rparr>)"
    and id: "u_id u' = u_id u"
    and cur: "current_streak u' = current_streak (calculate_streak u (date_of now))"
    and long: "longest_streak u' = max (longest_streak u) (current_streak u')"
    by blast
  from assms have "u_id u = uid" by (auto dest: find_Some_iff [THEN iffD1])
  with id have "u_id u' = uid" by simp
  with assms have "find (\<lambda>u. u_id u = uid) (update_row (\<lambda>u. u_id u = uid) (\<lambda>_. u') (users d)) = Some u'"
    by (intro find_update_row)
  moreover have "case last_interaction_date u of
          None \<Rightarrow> current_streak u' = 1
        | Some l \<Rightarrow>
            (date_of now - date_of l = 0 \<longrightarrow> current_streak u' = current_streak u)
          \<and> (date_of now - date_of l = 1 \<longrightarrow> current_streak u' = current_streak u + 1)
          \<and> (date_of now - date_of l > 1 \<longrightarrow> current_streak u' = 1)"
    by (simp add: cur calculate_streak_def Let_def split: option.split)
  ultimately show ?thesis using res long by simp
qed

theorem update_user_stats_streak_rule_witness:
  "find (\<lambda>u. u_id u = 1) (users example_db) = Some example_user
   \<and> map current_streak (users (snd (update_user_stats example_db 1 86400000000 86400000001))) = [3]
   \<and> map longest_streak (users (snd (update_user_stats example_db 1 86400000000 86400000001))) = [3]"
  using update_user_stats_streak_rule [of 1 example_db example_user 86400000000 86400000001]
  by (simp add: example_db_def example_user_def date_of_def usec_per_day_def
      update_user_stats_def set_first_interaction_def calculate_streak_def
      update_longest_streak_def Let_def)

text \<open>
  C2. The connection-depth computation returns the value of the specification's formula:
  base 1, raised to 2, 3, 4, 5 at 3, 10, 25, 50 total sessions, plus 1 for a current
  streak of at least 3, plus 1 when at least 30 days have passed since the first
  interaction, clamped to the range from 1 to 5.
\<close>

theorem calculate_connection_depth_spec:
  "calculate_connection_depth u now =
     spec_connection_depth (total_sessions u) (current_streak u) (first_interaction_date u) now"
  unfolding calculate_connection_depth_def spec_connection_depth_def Let_def
  by (simp add: thirty_days_iff split: option.split)

theorem calculate_connection_depth_spec_witness:
  "calculate_connection_depth (example_user\<lparr>total_sessions := 10, current_streak := 3\<rparr>)
     (30 * usec_per_day) = 5"
  using calculate_connection_depth_spec
    [of "example_user\<lparr>total_sessions := 10, current_streak := 3\<rparr>" "30 * usec_per_day"]
  by (simp add: spec_connection_depth_def example_user_def usec_per_day_def)

text \<open>
  C10. For a user id that matches no row of the users table, \<open>update_user_stats\<close>
  returns \<open>None\<close> and leaves the whole database as it was.
\<close>

theorem update_user_stats_missing_user:
  "find (\<lambda>u. u_id u = uid) (users d) = None \<Longrightarrow> update_user_stats d uid now now2 = (None, d)"
  unfolding update_user_stats_def by simp

theorem update_user_stats_missing_user_witness:
  "find (\<lambda>u. u_id u = 7) (users example_db) = None
   \<and> update_user_stats example_db 7 5 6 = (None, example_db)"
  using update_user_stats_missing_user [of 7 example_db 5 6]
  by (simp add: example_db_def example_user_def)

section \<open>Retrieval\<close>

lemma set_sql_limit: "set (sql_limit n xs) \<subseteq> set xs"
  by (auto simp: sql_limit_def dest: in_set_takeD)

lemma sorted_wrt_sql_limit: "sorted_wrt R xs \<Longrightarrow> sorted_wrt R (sql_limit n xs)"
  by (simp add: sql_limit_def sorted_wrt_take)

lemma length_sql_limit: "0 \<le> n \<Longrightarrow> int (length (sql_limit n xs)) \<le> n"
  by (simp add: sql_limit_def)

lemma sorted_wrt_sort_key: "sorted_wrt (\<lambda>a b. f a \<le> f b) (sort_key f xs)"
  using sorted_sort_key [of f xs] by (simp add: sorted_map)

lemma sorted_wrt_relevance_key:
  "sorted_wrt (\<lambda>a b. relevance_score a > relevance_score b \<or>
          (relevance_score a = relevance_score b \<and> m_created_at a \<ge> m_created_at b))
     (sort_key (\<lambda>m. (- relevance_score m, - m_created_at m)) xs)"
  by (rule sorted_wrt_mono_rel [OF _ sorted_wrt_sort_key]) (auto simp: less_eq_prod_def)

lemma sorted_wrt_recent_key:
  "sorted_wrt (\<lambda>a b. m_created_at a \<ge> m_created_at b) (sort_key (\<lambda>m. - m_created_at m) xs)"
  by (rule sorted_wrt_mono_rel [OF _ sorted_wrt_sort_key]) auto

lemma get_relevant_memories_props:
  "set (get_relevant_memories d uid min_relevance limit)
      \<subseteq> {m \<in> set (memories d). m_user_id m = uid \<and> relevance_score m \<ge> min_relevance}
   \<and> sorted_wrt (\<lambda>a b. relevance_score a > relevance_score b \<or>
          (relevance_score a = relevance_score b \<and> m_created_at a \<ge> m_created_at b))
        (get_relevant_memories d uid min_relevance limit)
   \<and> (0 \<le> limit \<longrightarrow> int (length (get_relevant_memories d uid min_relevance limit)) \<le> limit)"
proof (intro conjI)
  show "set (get_relevant_memories d uid min_relevance limit)
      \<subseteq> {m \<in> set (memories d). m_user_id m = uid \<and> relevance_score m \<ge> min_relevance}"
    unfolding get_relevant_memories_def using set_sql_limit by fastforce
  show "sorted_wrt (\<lambda>a b. relevance_score a > relevance_score b \<or>
          (relevance_score a = relevance_score b \<and> m_created_at a \<ge> m_created_at b))
        (get_relevant_memories d uid min_relevance limit)"
    unfolding get_relevant_memories_def
    by (intro sorted_wrt_sql_limit sorted_wrt_relevance_key)
  show "0 \<le> limit \<longrightarrow> int (length (get_relevant_memories d uid min_relevance limit)) \<le> limit"
    unfolding get_relevant_memories_def by (simp add: length_sql_limit)
qed

text \<open>
  C5. \<open>get_relevant_memories\<close> returns only memories of the given user whose
  relevance score is at least the threshold, sorted by relevance score descending with
  ties broken by creation time descending, and at most \<open>limit\<close> of them, \<open>limit\<close>
  being a maximum number of rows, so not negative.
\<close>

theorem get_relevant_memories_sorted_bounded:
  "set (get_relevant_memories d uid min_relevance limit)
      \<subseteq> {m \<in> set (memories d). m_user_id m = uid \<and> relevance_score m \<ge> min_relevance}
   \<and> sorted_wrt (\<lambda>a b. relevance_score a > relevance_score b \<or>
          (relevance_score a = relevance_score b \<and> m_created_at a \<ge> m_created_at b))
        (get_relevant_memories d uid min_relevance limit)
   \<and> (0 \<le> limit \<longrightarrow> int (length (get_relevant_memories d uid min_relevance limit)) \<le> limit)"
  by (rule get_relevant_memories_props)

theorem get_relevant_memories_sorted_bounded_witness:
  "(0::int) \<le> 2 \<and> map m_id (get_relevant_memories example_memory_db 1 5 2) = [3, 2]"
  using get_relevant_memories_sorted_bounded [of example_memory_db 1 5 2]
  by (simp add: get_relevant_memories_def example_memory_db_def example_db_def
      example_memory_def sql_limit_def less_eq_prod_def)

section \<open>Context assembly\<close>

lemma get_recent_memories_alt:
  "get_recent_memories d uid limit cat =
     sql_limit limit (sort_key (\<lambda>m. - m_created_at m)
       (filter (\<lambda>m. m_user_id m = uid \<and> (cat \<noteq> None \<and> cat \<noteq> Some [] \<longrightarrow> category m = cat))
          (memories d)))"
proof (cases "cat \<noteq> None \<and> cat \<noteq> Some []")
  case True
  then show ?thesis
    unfolding get_recent_memories_def Let_def by (simp add: conj_commute)
next
  case False
  then show ?thesis
    unfolding get_recent_memories_def Let_def by auto
qed


lemma get_recent_memories_props:
  "set (get_recent_memories d uid limit cat) \<subseteq> {m \<in> set (memories d). m_user_id m = uid}
   \<and> sorted_wrt (\<lambda>a b. m_created_at a \<ge> m_created_at b) (get_recent_memories d uid limit cat)
   \<and> (0 \<le> limit \<longrightarrow> int (length (get_recent_memories d uid limit cat)) \<le> limit)"
proof (intro conjI)
  show "set (get_recent_memories d uid limit cat) \<subseteq> {m \<in> set (memories d). m_user_id m = uid}"
    unfolding get_recent_memories_alt using set_sql_limit by fastforce
  show "sorted_wrt (\<lambda>a b. m_created_at a \<ge> m_created_at b) (get_recent_memories d uid limit cat)"
    unfolding get_recent_memories_alt
    by (intro sorted_wrt_sql_limit sorted_wrt_recent_key)
  show "0 \<le> limit \<longrightarrow> int (length (get_recent_memories d uid limit cat)) \<le> limit"
    unfolding get_recent_memories_alt by (simp add: length_sql_limit)
qed

lemma get_or_create_user_memories [simp]:
  "memories (snd (get_or_create_user d uid now)) = memories d"
  by (simp add: get_or_create_user_def Let_def split: option.split)


lemma find_SomeD: "find P xs = Some x \<Longrightarrow> P x \<and> x \<in> set xs"
  by (induction xs) (auto split: if_splits)

lemma get_or_create_user_key: "u_user_id (fst (get_or_create_user d uid now)) = uid"
proof (cases "find (\<lambda>u. u_user_id u = uid) (users d)")
  case None
  then show ?thesis by (simp add: get_or_create_user_def Let_def)
next
  case (Some u)
  then show ?thesis using find_SomeD [OF Some] by (simp add: get_or_create_user_def)
qed

lemma build_context_unfold:
  "build_context_for_interaction d uid n k now =
     (\<lparr>recent = get_recent_memories (snd (get_or_create_user d uid now))
                  (u_id (fst (get_or_create_user d uid now))) n None,
       relevant = get_relevant_memories (snd (get_or_create_user d uid now))
                  (u_id (fst (get_or_create_user d uid now))) 7 k\<rparr>,
      snd (get_or_create_user d uid now))"
  by (simp add: build_context_for_interaction_def Let_def split: prod.split)


text \<open>
  C9. \<open>build_context_for_interaction\<close> returns, for the user row of the given
  identifier and every pair of bounds (numbers of memories, so not negative), a
  \<open>recent\<close> list of at most \<open>include_recent\<close> memories of that user ordered by
  creation time descending and a \<open>relevant\<close> list of at most \<open>include_relevant\<close>
  memories of that user, each with relevance score at least 7.
\<close>

theorem build_context_for_interaction_bounded:
  "case build_context_for_interaction d uid n k now of (ctx, d') \<Rightarrow>
     (let user = fst (get_or_create_user d uid now) in
        u_user_id user = uid
      \<and> (0 \<le> n \<longrightarrow> int (length (recent ctx)) \<le> n)
      \<and> (\<forall>m \<in> set (recent ctx). m \<in> set (memories d) \<and> m_user_id m = u_id user)
      \<and> sorted_wrt (\<lambda>a b. m_created_at a \<ge> m_created_at b) (recent ctx)
      \<and> (0 \<le> k \<longrightarrow> int (length (relevant ctx)) \<le> k)
      \<and> (\<forall>m \<in> set (relevant ctx).
            m \<in> set (memories d) \<and> m_user_id m = u_id user \<and> relevance_score m \<ge> 7))"
proof -
  define user where "user = fst (get_or_create_user d uid now)"
  define d1 where "d1 = snd (get_or_create_user d uid now)"
  define rec where "rec = get_recent_memories d1 (u_id user) n None"
  define rel where "rel = get_relevant_memories d1 (u_id user) 7 k"
  have mem: "memories d1 = memories d" by (simp add: d1_def)
  have r1: "set rec \<subseteq> {m \<in> set (memories d). m_user_id m = u_id user}"
    and r2: "sorted_wrt (\<lambda>a b. m_created_at a \<ge> m_created_at b) rec"
    and r3: "0 \<le> n \<longrightarrow> int (length rec) \<le> n"
    using get_recent_memories_props [of d1 "u_id user" n None] by (simp_all add: rec_def mem)
  have v1: "set rel \<subseteq> {m \<in> set (memories d). m_user_id m = u_id user \<and> relevance_score m \<ge> 7}"
    and v3: "0 \<le> k \<longrightarrow> int (length rel) \<le> k"
    using get_relevant_memories_props [of d1 "u_id user" 7 k] by (simp_all add: rel_def mem)
  have key: "u_user_id user = uid" by (simp add: user_def get_or_create_user_key)
  have res: "build_context_for_interaction d uid n k now = (\<lparr>recent = rec, relevant = rel\<rparr>, d1)"
    by (simp add: build_context_unfold rec_def rel_def user_def d1_def)
  have a: "\<forall>m \<in> set rec. m \<in> set (memories d) \<and> m_user_id m = u_id user" using r1 by blast
  have b: "\<forall>m \<in> set rel. m \<in> set (memories d) \<and> m_user_id m = u_id user \<and> relevance_score m \<ge> 7"
    using v1 by blast
  show ?thesis
    unfolding res Let_def user_def [symmetric]
    using key r2 r3 v3 a b by simp
qed

theorem build_context_for_interaction_bounded_witness:
  "(0::int) \<le> 2 \<and> (0::int) \<le> 1
   \<and> map m_id (recent (fst (build_context_for_interaction example_memory_db ''trader'' 2 1 0))) = [3, 2]
   \<and> map m_id (relevant (fst (build_context_for_interaction example_memory_db ''trader'' 2 1 0))) = [3]"
  using build_context_for_interaction_bounded [of example_memory_db "''trader''" 2 1 0]
  by (simp add: build_context_unfold get_or_create_user_def get_recent_memories_def
      get_relevant_memories_def example_memory_db_def example_db_def example_user_def
      example_memory_def sql_limit_def less_eq_prod_def)

section \<open>Effects of the operations on the tables\<close>

subsection \<open>What each operation writes\<close>

lemma get_or_create_user_tables [simp]:
  "sessions (snd (get_or_create_user d uid now)) = sessions d"
  "achievements (snd (get_or_create_user d uid now)) = achievements d"
  by (simp_all add: get_or_create_user_def Let_def split: option.split)

lemma get_or_create_user_users:
  "users (snd (get_or_create_user d uid now)) = users d
   \<or> (\<exists>u. users (snd (get_or_create_user d uid now)) = users d @ [u]
          \<and> current_streak u = 0 \<and> longest_streak u = 0 \<and> connection_depth u = 1)"
  by (simp add: get_or_create_user_def Let_def split: option.split)

lemma create_memory_tables [simp]:
  "users (snd (create_memory d uid ob i c s f p idn brk now)) = users d"
  "sessions (snd (create_memory d uid ob i c s f p idn brk now)) = sessions d"
  "achievements (snd (create_memory d uid ob i c s f p idn brk now)) = achievements d"
  "memories (snd (create_memory d uid ob i c s f p idn brk now)) =
     memories d @ [fst (create_memory d uid ob i c s f p idn brk now)]"
  "relevance_score (fst (create_memory d uid ob i c s f p idn brk now)) = s"
  by (simp_all add: create_memory_def Let_def)

lemma update_memory_relevance_tables [simp]:
  "users (snd (update_memory_relevance d mid s)) = users d"
  "sessions (snd (update_memory_relevance d mid s)) = sessions d"
  "achievements (snd (update_memory_relevance d mid s)) = achievements d"
  by (simp_all add: update_memory_relevance_def Let_def split: option.split)

lemma update_row_const:
  "find P xs = Some x \<Longrightarrow> update_row P (\<lambda>_. f x) xs = update_row P f xs"
  by (induction xs) auto

lemma update_row_not_found: "find P xs = None \<Longrightarrow> update_row P f xs = xs"
  by (induction xs) (auto split: if_splits)

lemma update_memory_relevance_memories:
  "memories (snd (update_memory_relevance d mid s)) =
     update_row (\<lambda>m. m_id m = mid) (\<lambda>m. m\<lparr>relevance_score := s\<rparr>) (memories d)"
  by (simp add: update_memory_relevance_def Let_def update_row_not_found
      update_row_const [where f = "\<lambda>m. m\<lparr>relevance_score := s\<rparr>"] split: option.split)

lemma create_session_record_tables [simp]:
  "users (snd (create_session_record d uid inp resp now)) = users d"
  "memories (snd (create_session_record d uid inp resp now)) = memories d"
  "achievements (snd (create_session_record d uid inp resp now)) = achievements d"
  by (simp_all add: create_session_record_def Let_def)

lemma update_user_stats_tables [simp]:
  "memories (snd (update_user_stats d uid now now2)) = memories d"
  "sessions (snd (update_user_stats d uid now now2)) = sessions d"
  "achievements (snd (update_user_stats d uid now now2)) = achievements d"
  by (simp_all add: update_user_stats_def Let_def split: option.split)

lemma unlock_achievement_tables [simp]:
  "users (snd (unlock_achievement d uid key now)) = users d"
  "memories (snd (unlock_achievement d uid key now)) = memories d"
  "sessions (snd (unlock_achievement d uid key now)) = sessions d"
  by (simp_all add: unlock_achievement_def Let_def)

lemma mark_achievement_celebrated_tables [simp]:
  "users (snd (mark_achievement_celebrated d aid)) = users d"
  "memories (snd (mark_achievement_celebrated d aid)) = memories d"
  "sessions (snd (mark_achievement_celebrated d aid)) = sessions d"
  by (simp_all add: mark_achievement_celebrated_def Let_def split: option.split)

lemma mark_achievement_celebrated_achievements:
  "achievements (snd (mark_achievement_celebrated d aid)) =
     update_row (\<lambda>a. a_id a = aid) (\<lambda>a. a\<lparr>celebrated := True\<rparr>) (achievements d)"
  by (simp add: mark_achievement_celebrated_def Let_def update_row_not_found
      update_row_const [where f = "\<lambda>a. a\<lparr>celebrated := True\<rparr>"] split: option.split)


subsection \<open>The unlock loop\<close>

lemma has_achievement_iff:
  "has_achievement d uid k =
     (\<exists>a \<in> set (achievements d). a_user_id a = uid \<and> achievement_key a = k)"
  by (auto simp add: has_achievement_def find_None_iff)

lemma unlock_achievement_cases:
  "(has_achievement d uid k \<and> unlock_achievement d uid k now = (None, d))
   \<or> (\<not> has_achievement d uid k \<and>
        (\<exists>a. unlock_achievement d uid k now = (Some a, d\<lparr>achievements := achievements d @ [a]\<rparr>)
           \<and> a_user_id a = uid \<and> achievement_key a = k \<and> \<not> celebrated a))"
  by (simp add: unlock_achievement_def Let_def)

lemma unlock_loop_effect:
  "\<exists>new. unlock_loop cs d uid now acc = (acc @ new, d\<lparr>achievements := achievements d @ new\<rparr>)
     \<and> (\<forall>a \<in> set new. a_user_id a = uid \<and> \<not> celebrated a)
     \<and> (distinct (map fst cs) \<longrightarrow>
          map achievement_key new =
            filter (\<lambda>k. \<not> has_achievement d uid k) (map fst (filter snd cs)))"
proof (induction cs arbitrary: d acc)
  case Nil
  show ?case by simp
next
  case (Cons c cs)
  obtain k b where c: "c = (k, b)" by (cases c)
  show ?case
  proof (cases "b \<and> \<not> has_achievement d uid k")
    case False
    from Cons.IH [of d acc] obtain new where
      loop: "unlock_loop cs d uid now acc = (acc @ new, d\<lparr>achievements := achievements d @ new\<rparr>)"
      and own: "\<forall>a \<in> set new. a_user_id a = uid \<and> \<not> celebrated a"
      and keys: "distinct (map fst cs) \<longrightarrow> map achievement_key new =
            filter (\<lambda>k. \<not> has_achievement d uid k) (map fst (filter snd cs))"
      by blast
    have "unlock_loop (c # cs) d uid now acc = unlock_loop cs d uid now acc"
      using False unlock_achievement_cases [of d uid k now] by (auto simp add: c)
    with loop own keys False show ?thesis by (intro exI [of _ new]) (auto simp add: c)
  next
    case True
    then obtain a where
      un: "unlock_achievement d uid k now = (Some a, d\<lparr>achievements := achievements d @ [a]\<rparr>)"
      and a: "a_user_id a = uid" "achievement_key a = k" "\<not> celebrated a"
      using unlock_achievement_cases [of d uid k now] by auto
    define d1 where "d1 = d\<lparr>achievements := achievements d @ [a]\<rparr>"
    from Cons.IH [of d1 "acc @ [a]"] obtain new where
      loop: "unlock_loop cs d1 uid now (acc @ [a]) =
               ((acc @ [a]) @ new, d1\<lparr>achievements := achievements d1 @ new\<rparr>)"
      and own: "\<forall>a \<in> set new. a_user_id a = uid \<and> \<not> celebrated a"
      and keys: "distinct (map fst cs) \<longrightarrow> map achievement_key new =
            filter (\<lambda>k. \<not> has_achievement d1 uid k) (map fst (filter snd cs))"
      by blast
    have step: "unlock_loop (c # cs) d uid now acc = unlock_loop cs d1 uid now (acc @ [a])"
      using True un by (simp add: c d1_def)
    have has1: "\<And>k'. has_achievement d1 uid k' = (has_achievement d uid k' \<or> k' = k)"
      using a by (auto simp add: has_achievement_iff d1_def)
    have "unlock_loop (c # cs) d uid now acc =
            (acc @ (a # new), d\<lparr>achievements := achievements d @ (a # new)\<rparr>)"
      using step loop by (simp add: d1_def)
    moreover have "\<forall>x \<in> set (a # new). a_user_id x = uid \<and> \<not> celebrated x"
      using own a by simp
    moreover have "distinct (map fst (c # cs)) \<longrightarrow> map achievement_key (a # new) =
            filter (\<lambda>k. \<not> has_achievement d uid k) (map fst (filter snd (c # cs)))"
    proof
      assume dist: "distinct (map fst (c # cs))"
      then have notin: "k \<notin> fst ` set cs" and dcs: "distinct (map fst cs)" by (auto simp add: c)
      have "filter (\<lambda>k. \<not> has_achievement d1 uid k) (map fst (filter snd cs)) =
            filter (\<lambda>k. \<not> has_achievement d uid k) (map fst (filter snd cs))"
        using notin by (intro filter_cong refl) (auto simp add: has1)
      with keys dcs True a show "map achievement_key (a # new) =
            filter (\<lambda>k. \<not> has_achievement d uid k) (map fst (filter snd (c # cs)))"
        by (simp add: c)
    qed
    ultimately show ?thesis by blast
  qed
qed


lemma check_and_unlock_achievements_effect:
  "\<exists>new. check_and_unlock_achievements l d uid now = (new, d\<lparr>achievements := achievements d @ new\<rparr>)
     \<and> (\<forall>a \<in> set new. a_user_id a = uid \<and> \<not> celebrated a)"
proof (cases "find (\<lambda>u. u_id u = uid) (users d)")
  case None
  then show ?thesis by (simp add: check_and_unlock_achievements_def)
next
  case (Some u)
  from unlock_loop_effect [of "achievement_checks l d u uid" d uid now "[]"]
  show ?thesis using Some by (auto simp add: check_and_unlock_achievements_def)
qed

subsection \<open>The store loop\<close>

lemma store_loop_effect:
  "\<exists>new. store_loop l os d uid now acc = (acc @ new, d\<lparr>memories := memories d @ new\<rparr>)
     \<and> (\<forall>m \<in> set new. relevance_score m \<in> obs_score ` set os)"
proof (induction os arbitrary: d acc)
  case Nil
  show ?case by simp
next
  case (Cons ob os)
  show ?case
  proof (cases "obs_observation ob = None \<or> obs_observation ob = Some []")
    case True
    then have "store_loop l (ob # os) d uid now acc = store_loop l os d uid now acc"
      by (auto simp add: Let_def)
    with Cons.IH [of d acc] show ?thesis by auto
  next
    case False
    then obtain body where body: "obs_observation ob = Some body" "body \<noteq> []" by auto
    obtain m d1 where cm: "create_memory d uid body (obs_interpretation ob) (obs_category ob)
        (obs_score ob) (obs_follow_up_question ob)
        (case obs_people_mentioned ob of
           Some (PeopleList ps) \<Rightarrow> Some (json_dumps l ps)
         | Some (PeopleText t) \<Rightarrow> Some t
         | None \<Rightarrow> None)
        (case obs_is_identity_statement ob of Some b \<Rightarrow> b | None \<Rightarrow> False)
        (case obs_is_breakthrough_moment ob of Some b \<Rightarrow> b | None \<Rightarrow> False)
        now = (m, d1)" by (cases "create_memory d uid body (obs_interpretation ob) (obs_category ob)
        (obs_score ob) (obs_follow_up_question ob)
        (case obs_people_mentioned ob of
           Some (PeopleList ps) \<Rightarrow> Some (json_dumps l ps)
         | Some (PeopleText t) \<Rightarrow> Some t
         | None \<Rightarrow> None)
        (case obs_is_identity_statement ob of Some b \<Rightarrow> b | None \<Rightarrow> False)
        (case obs_is_breakthrough_moment ob of Some b \<Rightarrow> b | None \<Rightarrow> False)
        now")
    then have d1: "d1 = d\<lparr>memories := memories d @ [m]\<rparr>" and sc: "relevance_score m = obs_score ob"
      by (auto simp add: create_memory_def Let_def)
    have step: "store_loop l (ob # os) d uid now acc = store_loop l os d1 uid now (acc @ [m])"
      using body cm by (simp add: Let_def obs_score_def)
    from Cons.IH [of d1 "acc @ [m]"] obtain new where
      loop: "store_loop l os d1 uid now (acc @ [m]) =
               ((acc @ [m]) @ new, d1\<lparr>memories := memories d1 @ new\<rparr>)"
      and scs: "\<forall>m \<in> set new. relevance_score m \<in> obs_score ` set os" by blast
    have "store_loop l (ob # os) d uid now acc =
            (acc @ (m # new), d\<lparr>memories := memories d @ (m # new)\<rparr>)"
      using step loop by (simp add: d1)
    moreover have "\<forall>x \<in> set (m # new). relevance_score x \<in> obs_score ` set (ob # os)"
      using scs sc by auto
    ultimately show ?thesis by blast
  qed
qed


subsection \<open>One operation\<close>

lemma store_observation_unfold:
  "store_observation d uid ob i c s now =
     create_memory (snd (get_or_create_user d uid now)) (u_id (fst (get_or_create_user d uid now)))
       ob i c s None None False False now"
  by (simp add: store_observation_def split: prod.split)

lemma batch_store_observations_unfold:
  "batch_store_observations l d uid os now =
     store_loop l os (snd (get_or_create_user d uid now)) (u_id (fst (get_or_create_user d uid now)))
       now []"
  by (simp add: batch_store_observations_def split: prod.split)

lemma log_interaction_unfold:
  "log_interaction d uid inp resp now =
     snd (create_session_record (snd (get_or_create_user d uid now))
            (u_id (fst (get_or_create_user d uid now))) inp resp now)"
  by (simp add: log_interaction_def split: prod.split)

lemma store_loop_tables [simp]:
  "users (snd (store_loop l os d uid now acc)) = users d"
  "sessions (snd (store_loop l os d uid now acc)) = sessions d"
  "achievements (snd (store_loop l os d uid now acc)) = achievements d"
  using store_loop_effect [of l os d uid now acc] by auto

lemma check_and_unlock_achievements_tables [simp]:
  "users (snd (check_and_unlock_achievements l d uid now)) = users d"
  "memories (snd (check_and_unlock_achievements l d uid now)) = memories d"
  "sessions (snd (check_and_unlock_achievements l d uid now)) = sessions d"
  using check_and_unlock_achievements_effect [of l d uid now] by auto

lemma exec_op_memories:
  "(\<exists>new. memories (exec_op l now now2 operation d) = memories d @ new
      \<and> (scores_in_range operation \<longrightarrow> (\<forall>m \<in> set new. 1 \<le> relevance_score m \<and> relevance_score m \<le> 10)))
   \<or> (\<exists>mid s. exec_op l now now2 operation d = snd (update_memory_relevance d mid s)
      \<and> (scores_in_range operation \<longrightarrow> 1 \<le> s \<and> s \<le> 10))"
proof (cases operation)
  case (CreateMemory uid ob interp cat score fu people idn brk)
  then show ?thesis by simp
next
  case (UpdateMemoryRelevance mid s)
  then show ?thesis by (intro disjI2 exI [of _ mid] exI [of _ s]) simp
next
  case (StoreObservation uid ob interp cat score)
  then show ?thesis by (simp add: store_observation_unfold)
next
  case (BatchStoreObservations uid os)
  from store_loop_effect [of l os "snd (get_or_create_user d uid now)"
         "u_id (fst (get_or_create_user d uid now))" now "[]"]
  obtain new where
    "store_loop l os (snd (get_or_create_user d uid now)) (u_id (fst (get_or_create_user d uid now))) now []
       = (new, (snd (get_or_create_user d uid now))\<lparr>memories := memories d @ new\<rparr>)"
    and "\<forall>m \<in> set new. relevance_score m \<in> obs_score ` set os"
    by auto
  then show ?thesis using BatchStoreObservations
    by (auto simp add: batch_store_observations_unfold)
next
  case (MarkMemoryAsSignificant mid)
  then show ?thesis
    by (intro disjI2 exI [of _ mid] exI [of _ 9]) (simp add: mark_memory_as_significant_def)
next
  case (DecayMemoryRelevance mid amount)
  then show ?thesis
    by (intro disjI2 exI [of _ mid] exI [of _ 3]) (simp add: decay_memory_relevance_def)
qed (simp_all add: build_context_unfold log_interaction_unfold)


lemma users_after_get_or_create:
  assumes "users d' = users (snd (get_or_create_user d uid now))"
  shows "users d' = users d
   \<or> (\<exists>u. users d' = users d @ [u]
          \<and> current_streak u = 0 \<and> longest_streak u = 0 \<and> connection_depth u = 1)"
  using get_or_create_user_users [of d uid now] assms by simp

lemma exec_op_users:
  "users (exec_op l now now2 operation d) = users d
   \<or> (\<exists>u. users (exec_op l now now2 operation d) = users d @ [u]
          \<and> current_streak u = 0 \<and> longest_streak u = 0 \<and> connection_depth u = 1)
   \<or> (\<exists>uid u u'. find (\<lambda>u. u_id u = uid) (users d) = Some u
          \<and> users (exec_op l now now2 operation d) =
              update_row (\<lambda>u. u_id u = uid) (\<lambda>_. u') (users d)
          \<and> longest_streak u' = max (longest_streak u) (current_streak u')
          \<and> 1 \<le> connection_depth u' \<and> connection_depth u' \<le> 5)"
proof (cases operation)
  case (UpdateUserStats uid)
  show ?thesis
  proof (cases "find (\<lambda>u. u_id u = uid) (users d)")
    case None
    then show ?thesis using UpdateUserStats by (simp add: update_user_stats_def)
  next
    case (Some u)
    from update_user_stats_found [OF Some, of now now2] obtain u' where
      "update_user_stats d uid now now2 =
         (Some u', d\<lparr>users := update_row (\<lambda>u. u_id u = uid) (\<lambda>_. u') (users d)\<rparr>)"
      "longest_streak u' = max (longest_streak u) (current_streak u')"
      "1 \<le> connection_depth u'" "connection_depth u' \<le> 5" by blast
    then show ?thesis using UpdateUserStats Some
      by (intro disjI2 exI [of _ uid] exI [of _ u] exI [of _ u']) simp
  qed
next
  case (GetOrCreateUser uid)
  then have "users (exec_op l now now2 operation d) = users (snd (get_or_create_user d uid now))"
    by simp
  from users_after_get_or_create [OF this] show ?thesis by blast
next
  case (StoreObservation uid ob interp cat score)
  then have "users (exec_op l now now2 operation d) = users (snd (get_or_create_user d uid now))"
    by (simp add: store_observation_unfold)
  from users_after_get_or_create [OF this] show ?thesis by blast
next
  case (BatchStoreObservations uid os)
  then have "users (exec_op l now now2 operation d) = users (snd (get_or_create_user d uid now))"
    by (simp add: batch_store_observations_unfold)
  from users_after_get_or_create [OF this] show ?thesis by blast
next
  case (BuildContextForInteraction uid n k)
  then have "users (exec_op l now now2 operation d) = users (snd (get_or_create_user d uid now))"
    by (simp add: build_context_unfold)
  from users_after_get_or_create [OF this] show ?thesis by blast
next
  case (LogInteraction uid inp resp)
  then have "users (exec_op l now now2 operation d) = users (snd (get_or_create_user d uid now))"
    by (simp add: log_interaction_unfold)
  from users_after_get_or_create [OF this] show ?thesis by blast
qed (simp_all add: mark_memory_as_significant_def decay_memory_relevance_def)






lemma exec_op_achievements:
  "(\<exists>new. achievements (exec_op l now now2 operation d) = achievements d @ new
      \<and> (\<forall>a \<in> set new. \<not> celebrated a))
   \<or> (\<exists>aid. operation = MarkAchievementCelebrated aid
      \<and> achievements (exec_op l now now2 operation d) =
           update_row (\<lambda>a. a_id a = aid) (\<lambda>a. a\<lparr>celebrated := True\<rparr>) (achievements d))"
proof (cases operation)
  case (UnlockAchievement uid key)
  then show ?thesis
    using unlock_achievement_cases [of d uid key now] by auto
next
  case (MarkAchievementCelebrated aid)
  then show ?thesis by (simp add: mark_achievement_celebrated_achievements)
next
  case (CheckAndUnlockAchievements uid)
  then show ?thesis
    using check_and_unlock_achievements_effect [of l d uid now] by auto
qed (simp_all add: store_observation_unfold batch_store_observations_unfold
         build_context_unfold log_interaction_unfold mark_memory_as_significant_def
         decay_memory_relevance_def)



section \<open>Invariants of the reachable states\<close>

lemma set_update_row: "set (update_row P f xs) \<subseteq> set xs \<union> f ` set xs"
  by (induction xs) auto

lemma exec_op_user_invariant:
  assumes "\<forall>u \<in> set (users d).
     current_streak u \<le> longest_streak u \<and> 1 \<le> connection_depth u \<and> connection_depth u \<le> 5"
  shows "\<forall>u \<in> set (users (exec_op l now now2 operation d)).
     current_streak u \<le> longest_streak u \<and> 1 \<le> connection_depth u \<and> connection_depth u \<le> 5"
  using exec_op_users [of l now now2 operation d]
proof (elim disjE exE conjE)
  assume "users (exec_op l now now2 operation d) = users d"
  then show ?thesis using assms by simp
next
  fix u
  assume "users (exec_op l now now2 operation d) = users d @ [u]"
    "current_streak u = 0" "longest_streak u = 0" "connection_depth u = 1"
  then show ?thesis using assms by simp
next
  fix uid u u'
  assume st: "users (exec_op l now now2 operation d) =
                update_row (\<lambda>u. u_id u = uid) (\<lambda>_. u') (users d)"
    "longest_streak u' = max (longest_streak u) (current_streak u')"
    "1 \<le> connection_depth u'" "connection_depth u' \<le> 5"
  have "set (users (exec_op l now now2 operation d)) \<subseteq> insert u' (set (users d))"
    unfolding st(1) using set_update_row [of "\<lambda>u. u_id u = uid" "\<lambda>_. u'" "users d"] by auto
  moreover have "current_streak u' \<le> longest_streak u'" using st(2) by simp
  ultimately show ?thesis using assms st(3,4) by blast
qed

text \<open>
  C3. In every state reachable from the empty database (so from every freshly created
  user) by any sequence of the public operations, every user has
  \<open>longest_streak \<ge> current_streak\<close> and a connection depth in the range from 1 to 5.
\<close>

theorem reachable_user_invariant:
  assumes "reachable l d"
  shows "\<forall>u \<in> set (users d).
     current_streak u \<le> longest_streak u \<and> 1 \<le> connection_depth u \<and> connection_depth u \<le> 5"
  using assms unfolding reachable_def
proof (induction rule: reachable_by.induct)
  case init
  show ?case by (simp add: empty_db_def)
next
  case (step d operation now now2)
  from exec_op_user_invariant [OF step.IH] show ?case .
qed

theorem reachable_user_invariant_witness:
  "reachable example_lib
     (exec_op example_lib 5 6 (UpdateUserStats 1)
        (exec_op example_lib 0 0 (GetOrCreateUser ''trader'') empty_db))
   \<and> map (\<lambda>u. (current_streak u, longest_streak u, connection_depth u))
        (users (exec_op example_lib 5 6 (UpdateUserStats 1)
           (exec_op example_lib 0 0 (GetOrCreateUser ''trader'') empty_db))) = [(1, 1, 1)]"
proof -
  have r: "reachable example_lib
     (exec_op example_lib 5 6 (UpdateUserStats 1)
        (exec_op example_lib 0 0 (GetOrCreateUser ''trader'') empty_db))"
    unfolding reachable_def by (intro reachable_by.step reachable_by.init TrueI)
  have ev: "map (\<lambda>u. (current_streak u, longest_streak u, connection_depth u))
        (users (exec_op example_lib 5 6 (UpdateUserStats 1)
           (exec_op example_lib 0 0 (GetOrCreateUser ''trader'') empty_db))) = [(1, 1, 1)]"
    by code_simp
  show ?thesis using r reachable_user_invariant [OF r] ev by simp
qed

lemma exec_op_score_invariant:
  assumes "\<forall>m \<in> set (memories d). 1 \<le> relevance_score m \<and> relevance_score m \<le> 10"
    and "scores_in_range operation"
  shows "\<forall>m \<in> set (memories (exec_op l now now2 operation d)).
           1 \<le> relevance_score m \<and> relevance_score m \<le> 10"
  using exec_op_memories [of l now now2 operation d]
proof (elim disjE exE conjE)
  fix new
  assume "memories (exec_op l now now2 operation d) = memories d @ new"
    "scores_in_range operation \<longrightarrow>
       (\<forall>m \<in> set new. 1 \<le> relevance_score m \<and> relevance_score m \<le> 10)"
  then show ?thesis using assms by auto
next
  fix mid s
  assume upd: "exec_op l now now2 operation d = snd (update_memory_relevance d mid s)"
    "scores_in_range operation \<longrightarrow> 1 \<le> s \<and> s \<le> 10"
  have "set (memories (exec_op l now now2 operation d))
          \<subseteq> set (memories d) \<union> (\<lambda>m. m\<lparr>relevance_score := s\<rparr>) ` set (memories d)"
    unfolding upd(1) update_memory_relevance_memories by (rule set_update_row)
  then show ?thesis using assms upd(2) by auto
qed

text \<open>
  C6, as amended. In every state reachable through the public operations whose
  relevance-score arguments (of \<open>create_memory\<close>, \<open>store_observation\<close>,
  \<open>batch_store_observations\<close> and \<open>update_memory_relevance\<close>) all lie in the range
  from 1 to 10, every stored memory has a relevance score in that range; the promote and
  decay operations of the service write 9 and 3.
\<close>

theorem relevance_scores_in_range:
  assumes "reachable_by scores_in_range l d"
  shows "\<forall>m \<in> set (memories d). 1 \<le> relevance_score m \<and> relevance_score m \<le> 10"
  using assms
proof (induction rule: reachable_by.induct)
  case init
  show ?case by (simp add: empty_db_def)
next
  case (step d operation now now2)
  from exec_op_score_invariant [OF step.IH step.hyps(2)] show ?case .
qed

theorem relevance_scores_in_range_witness:
  "reachable_by scores_in_range example_lib
     (exec_op example_lib 1 1 (MarkMemoryAsSignificant 1)
        (exec_op example_lib 0 0 (CreateMemory 1 ''waits'' None None 4 None None False False) empty_db))
   \<and> map relevance_score (memories
     (exec_op example_lib 1 1 (MarkMemoryAsSignificant 1)
        (exec_op example_lib 0 0 (CreateMemory 1 ''waits'' None None 4 None None False False) empty_db)))
     = [9]"
proof -
  have r: "reachable_by scores_in_range example_lib
     (exec_op example_lib 1 1 (MarkMemoryAsSignificant 1)
        (exec_op example_lib 0 0 (CreateMemory 1 ''waits'' None None 4 None None False False) empty_db))"
    by (intro reachable_by.step reachable_by.init) simp_all
  have ev: "map relevance_score (memories
     (exec_op example_lib 1 1 (MarkMemoryAsSignificant 1)
        (exec_op example_lib 0 0 (CreateMemory 1 ''waits'' None None 4 None None False False) empty_db)))
     = [9]"
    by code_simp
  show ?thesis using r relevance_scores_in_range [OF r] ev by simp
qed

text \<open>
  Without that condition the range is not kept: \<open>create_memory\<close> stores the score it
  is given, and no operation checks it; a score of 11 is stored as 11.
\<close>

theorem create_memory_score_out_of_range:
  "reachable example_lib
     (exec_op example_lib 0 0 (CreateMemory 1 ''waits'' None None 11 None None False False) empty_db)
   \<and> map relevance_score (memories
     (exec_op example_lib 0 0 (CreateMemory 1 ''waits'' None None 11 None None False False) empty_db))
     = [11]"
proof -
  have r: "reachable example_lib
     (exec_op example_lib 0 0 (CreateMemory 1 ''waits'' None None 11 None None False False) empty_db)"
    unfolding reachable_def by (intro reachable_by.step reachable_by.init TrueI)
  have ev: "map relevance_score (memories
     (exec_op example_lib 0 0 (CreateMemory 1 ''waits'' None None 11 None None False False) empty_db))
     = [11]"
    by code_simp
  show ?thesis using r ev by simp
qed

section \<open>Frame properties of memories and achievements\<close>

lemma length_update_row [simp]: "length (update_row P f xs) = length xs"
  by (induction xs) auto

lemma nth_update_row:
  "i < length xs \<Longrightarrow>
     update_row P f xs ! i = xs ! i \<or> (P (xs ! i) \<and> update_row P f xs ! i = f (xs ! i))"
proof (induction xs arbitrary: i)
  case Nil
  then show ?case by simp
next
  case (Cons x xs)
  then show ?case by (cases i) auto
qed





text \<open>
  C8. Across any public operation the achievements table only grows; a row that exists
  keeps \<open>celebrated = True\<close> once it has it, and a row changes only under
  \<open>mark_achievement_celebrated\<close> of its identifier, which sets the flag to true and
  nothing else; every row an operation adds has \<open>celebrated = False\<close>.
\<close>

theorem celebrated_only_set_by_mark:
  "(let old = achievements d; new = achievements (exec_op l now now2 operation d) in
      length old \<le> length new
    \<and> (\<forall>i < length old.
          (celebrated (old ! i) \<longrightarrow> celebrated (new ! i))
        \<and> (new ! i \<noteq> old ! i \<longrightarrow>
              operation = MarkAchievementCelebrated (a_id (old ! i))
            \<and> new ! i = (old ! i)\<lparr>celebrated := True\<rparr>))
    \<and> (\<forall>i. length old \<le> i \<and> i < length new \<longrightarrow> \<not> celebrated (new ! i)))"
  using exec_op_achievements [of l now now2 operation d]
proof (elim disjE exE conjE)
  fix new
  assume "achievements (exec_op l now now2 operation d) = achievements d @ new"
    "\<forall>a \<in> set new. \<not> celebrated a"
  then show ?thesis by (auto simp add: Let_def nth_append)
next
  fix aid
  assume m: "operation = MarkAchievementCelebrated aid"
    "achievements (exec_op l now now2 operation d) =
       update_row (\<lambda>a. a_id a = aid) (\<lambda>a. a\<lparr>celebrated := True\<rparr>) (achievements d)"
  have "(celebrated (achievements d ! i) \<longrightarrow>
           celebrated (update_row (\<lambda>a. a_id a = aid) (\<lambda>a. a\<lparr>celebrated := True\<rparr>) (achievements d) ! i))
        \<and> (update_row (\<lambda>a. a_id a = aid) (\<lambda>a. a\<lparr>celebrated := True\<rparr>) (achievements d) ! i
              \<noteq> achievements d ! i \<longrightarrow>
            aid = a_id (achievements d ! i)
          \<and> update_row (\<lambda>a. a_id a = aid) (\<lambda>a. a\<lparr>celebrated := True\<rparr>) (achievements d) ! i
              = (achievements d ! i)\<lparr>celebrated := True\<rparr>)"
    if "i < length (achievements d)" for i
    using nth_update_row [OF that, of "\<lambda>a. a_id a = aid" "\<lambda>a. a\<lparr>celebrated := True\<rparr>"]
    by auto
  moreover have "\<not> (length (achievements d) \<le> i \<and> i < length (achievements d))" for i
    by simp
  ultimately show ?thesis unfolding Let_def m(2) length_update_row by (simp only: m(1)) blast
qed

theorem celebrated_only_set_by_mark_witness:
  "map celebrated (achievements (exec_op example_lib 0 0 (UnlockAchievement 1 ''first_step'') empty_db))
     = [False]
   \<and> map celebrated (achievements (exec_op example_lib 1 1 (MarkAchievementCelebrated 1)
        (exec_op example_lib 0 0 (UnlockAchievement 1 ''first_step'') empty_db))) = [True]
   \<and> map celebrated (achievements (exec_op example_lib 2 2 (CheckAndUnlockAchievements 1)
        (exec_op example_lib 1 1 (MarkAchievementCelebrated 1)
        (exec_op example_lib 0 0 (UnlockAchievement 1 ''first_step'') empty_db)))) = [True]"
proof -
  have ev: "map celebrated (achievements (exec_op example_lib 0 0 (UnlockAchievement 1 ''first_step'') empty_db))
     = [False]
   \<and> map celebrated (achievements (exec_op example_lib 1 1 (MarkAchievementCelebrated 1)
        (exec_op example_lib 0 0 (UnlockAchievement 1 ''first_step'') empty_db))) = [True]
   \<and> map celebrated (achievements (exec_op example_lib 2 2 (CheckAndUnlockAchievements 1)
        (exec_op example_lib 1 1 (MarkAchievementCelebrated 1)
        (exec_op example_lib 0 0 (UnlockAchievement 1 ''first_step'') empty_db)))) = [True]"
    by code_simp
  show ?thesis
    using celebrated_only_set_by_mark [of "exec_op example_lib 0 0 (UnlockAchievement 1 ''first_step'') empty_db"
       example_lib 1 1 "MarkAchievementCelebrated 1"] ev
    by blast
qed

section \<open>Achievements\<close>

lemma achievement_checks_achievements_update [simp]:
  "achievement_checks l (d\<lparr>achievements := x\<rparr>) u uid = achievement_checks l d u uid"
  by (simp add: achievement_checks_def get_recent_memories_def)










end
